theory Spec2Isabelle
  imports Main
begin

section \<open>Time values\<close>

text \<open>
  A Go \<^verbatim>\<open>time.Time\<close> is an instant together with a location pointer. The instant is
  counted from the zero time (January 1, year 1, 00:00:00 UTC); the location pointer is
  \<open>None\<close> when it is nil, which \<^verbatim>\<open>Location()\<close> reads as UTC. The operator \<^verbatim>\<open>!=\<close>
  of the source compares the whole struct, so it is inequality of the record;
  \<^verbatim>\<open>After\<close> and \<^verbatim>\<open>Before\<close> compare instants only.
\<close>

type_synonym location = string

record Time =
  instant :: int
  loc :: "location option"

definition zeroDate :: Time where
  "zeroDate = \<lparr>instant = 0, loc = None\<rparr>"

definition Location :: "Time \<Rightarrow> location" where
  "Location t = (case loc t of None \<Rightarrow> ''UTC'' | Some l \<Rightarrow> l)"

definition After :: "Time \<Rightarrow> Time \<Rightarrow> bool" where
  "After t u = (instant u < instant t)"

definition Before :: "Time \<Rightarrow> Time \<Rightarrow> bool" where
  "Before t u = (instant t < instant u)"

section \<open>The calendar data consumed by the matcher\<close>

text \<open>
  The iCalendar library is not part of the repository. Its containers are modelled as the
  library declares them: \<^verbatim>\<open>Params\<close> is a map from names to lists of values,
  \<^verbatim>\<open>Props\<close> a map from names to lists of properties (a missing key reads as the empty
  list, as a Go map does), a component has a name, properties and children. \<^verbatim>\<open>Get\<close>
  upper-cases the name it looks up and returns the first entry.
\<close>

datatype error = Error string

record Prop =
  prop_Name :: string
  prop_Params :: "string \<Rightarrow> string list"
  prop_Value :: string

datatype Component =
  Component (comp_Name: string) (comp_Props: "string \<Rightarrow> Prop list")
    (comp_Children: "Component list")

definition ToUpperChar :: "char \<Rightarrow> char" where
  "ToUpperChar c =
     (case map_of (zip ''abcdefghijklmnopqrstuvwxyz'' ''ABCDEFGHIJKLMNOPQRSTUVWXYZ'') c of
        None \<Rightarrow> c | Some u \<Rightarrow> u)"

definition ToUpper :: "string \<Rightarrow> string" where
  "ToUpper s = map ToUpperChar s"

definition Params_Get :: "(string \<Rightarrow> string list) \<Rightarrow> string \<Rightarrow> string" where
  "Params_Get params name =
     (case params (ToUpper name) of [] \<Rightarrow> '''' | v # _ \<Rightarrow> v)"

definition Props_Get :: "(string \<Rightarrow> Prop list) \<Rightarrow> string \<Rightarrow> Prop option" where
  "Props_Get props name =
     (case props (ToUpper name) of [] \<Rightarrow> None | p # _ \<Rightarrow> Some p)"

definition CompEvent :: string where
  "CompEvent = ''VEVENT''"

text \<open>
  The date and time readers of the library (\<^verbatim>\<open>Event.DateTimeStart\<close>,
  \<^verbatim>\<open>Event.DateTimeEnd\<close>, \<^verbatim>\<open>Prop.DateTime\<close>) parse property values and may fail. The
  matcher only calls them, so they are parameters of the model: every theorem below holds
  for any library behaviour.
\<close>

record ical =
  DateTimeStart :: "Component \<Rightarrow> location \<Rightarrow> error + Time"
  DateTimeEnd :: "Component \<Rightarrow> location \<Rightarrow> error + Time"
  DateTime :: "Prop \<Rightarrow> location \<Rightarrow> error + Time"

section \<open>Filters and calendar objects\<close>

text \<open>
  Modelled from the spec: the declarations of \<^verbatim>\<open>TextMatch\<close>, \<^verbatim>\<open>ParamFilter\<close>,
  \<^verbatim>\<open>PropFilter\<close>, \<^verbatim>\<open>CompFilter\<close>, \<^verbatim>\<open>CalendarQuery\<close> and \<^verbatim>\<open>CalendarObject\<close>
  are not among the sources; the fields are those of the data model that the matcher
  reads. A pointer that may be nil is an option.
\<close>

record TextMatch =
  tm_Text :: string
  tm_NegateCondition :: bool

record ParamFilter =
  paf_Name :: string
  paf_IsNotDefined :: bool
  paf_TextMatch :: "TextMatch option"

record PropFilter =
  pf_Name :: string
  pf_IsNotDefined :: bool
  pf_Start :: Time
  pf_End :: Time
  pf_TextMatch :: "TextMatch option"
  pf_ParamFilter :: "ParamFilter list"

datatype CompFilter =
  CompFilter (cf_Name: string) (cf_IsNotDefined: bool) (cf_Start: Time) (cf_End: Time)
    (cf_Props: "PropFilter list") (cf_Comps: "CompFilter list")

record CalendarQuery =
  cq_CompFilter :: CompFilter

record Calendar =
  cal_Component :: "Component option"

record CalendarObject =
  co_Path :: string
  co_Data :: "Calendar option"

section \<open>The matcher\<close>

text \<open>
  A Go result \<^verbatim>\<open>(bool, error)\<close> is a value of \<open>error + bool\<close>: every error return of the
  source is \<^verbatim>\<open>return false, err\<close>, written \<open>Inl err\<close>, and \<^verbatim>\<open>return b, nil\<close> is
  \<open>Inr b\<close>.
\<close>

definition matchTextMatch :: "TextMatch \<Rightarrow> string \<Rightarrow> bool" where
  "matchTextMatch txt value =
     (let match = (value = tm_Text txt)
      in if tm_NegateCondition txt then \<not> match else match)"

definition matchParamFilter :: "ParamFilter \<Rightarrow> Prop \<Rightarrow> bool" where
  "matchParamFilter filter' field =
     (let value = Params_Get (prop_Params field) (paf_Name filter')
      in if value = '''' then paf_IsNotDefined filter'
         else if paf_IsNotDefined filter' then False
         else (case paf_TextMatch filter' of
                 Some txt \<Rightarrow> matchTextMatch txt value
               | None \<Rightarrow> True))"

text \<open>
  The loop over \<^verbatim>\<open>filter.ParamFilter\<close>: \<open>False\<close> when it returns early, \<open>True\<close> when
  it runs to its end.
\<close>

fun matchParamFilters :: "ParamFilter list \<Rightarrow> Prop \<Rightarrow> bool" where
  "matchParamFilters [] field = True"
| "matchParamFilters (paramFilter # rest) field =
     (if \<not> matchParamFilter paramFilter field then False
      else matchParamFilters rest field)"

definition matchPropTimeRange :: "ical \<Rightarrow> Time \<Rightarrow> Time \<Rightarrow> Prop \<Rightarrow> error + bool" where
  "matchPropTimeRange L start end' field =
     (case DateTime L field (Location start) of
        Inl err \<Rightarrow> Inl err
      | Inr ptime \<Rightarrow>
          if After ptime start \<and> Before ptime end' then Inr True else Inr False)"

definition matchCompTimeRange :: "ical \<Rightarrow> Time \<Rightarrow> Time \<Rightarrow> Component \<Rightarrow> error + bool" where
  "matchCompTimeRange L start end' comp' =
     (if comp_Name comp' \<noteq> CompEvent then Inr False
      else case DateTimeStart L comp' (Location start) of
        Inl err \<Rightarrow> Inl err
      | Inr eventStart \<Rightarrow>
          (case DateTimeEnd L comp' (Location end') of
             Inl err \<Rightarrow> Inl err
           | Inr eventEnd \<Rightarrow>
               if After eventStart start \<and> Before eventStart end' then Inr True
               else if After eventEnd start \<and> Before eventEnd end' then Inr True
               else if Before eventStart start \<and> After eventEnd end' then Inr True
               else Inr False))"

definition matchPropFilter :: "ical \<Rightarrow> PropFilter \<Rightarrow> Component \<Rightarrow> error + bool" where
  "matchPropFilter L filter' comp' =
     (case Props_Get (comp_Props comp') (pf_Name filter') of
        None \<Rightarrow> Inr (pf_IsNotDefined filter')
      | Some field \<Rightarrow>
          if pf_Start filter' \<noteq> zeroDate then
            (case matchPropTimeRange L (pf_Start filter') (pf_End filter') field of
               Inl err \<Rightarrow> Inl err
             | Inr match \<Rightarrow>
                 if \<not> match then Inr False
                 else if \<not> matchParamFilters (pf_ParamFilter filter') field then Inr False
                 else Inr True)
          else (case pf_TextMatch filter' of
                  Some txt \<Rightarrow>
                    if \<not> matchTextMatch txt (prop_Value field) then Inr False
                    else if \<not> matchParamFilters (pf_ParamFilter filter') field then Inr False
                    else Inr True
                | None \<Rightarrow> Inr True))"

text \<open>
  The loop over a list of property filters, shared by \<^verbatim>\<open>Match\<close> and
  \<^verbatim>\<open>matchCompFilterChild\<close>: an error or \<open>Inr False\<close> when it returns early,
  \<open>Inr True\<close> when it runs to its end.
\<close>

fun matchPropFilters :: "ical \<Rightarrow> PropFilter list \<Rightarrow> Component \<Rightarrow> error + bool" where
  "matchPropFilters L [] comp' = Inr True"
| "matchPropFilters L (propFilter # rest) comp' =
     (case matchPropFilter L propFilter comp' of
        Inl err \<Rightarrow> Inl err
      | Inr match \<Rightarrow> if \<not> match then Inr False else matchPropFilters L rest comp')"

text \<open>
  \<^verbatim>\<open>matchCompFilter\<close> and \<^verbatim>\<open>matchCompFilterChild\<close> call each other. The loop of
  \<^verbatim>\<open>matchCompFilter\<close> over the children is \<open>matchChildren\<close>, which carries the slice
  \<^verbatim>\<open>matches\<close>; the loop over \<^verbatim>\<open>filter.Comps\<close> is \<open>matchCompFilters\<close>; what
  \<^verbatim>\<open>matchCompFilterChild\<close> does after its time range test is \<open>matchNested\<close>.
\<close>

fun matchCompFilter :: "ical \<Rightarrow> CompFilter \<Rightarrow> Component \<Rightarrow> error + bool"
  and matchChildren ::
    "ical \<Rightarrow> CompFilter \<Rightarrow> Component list \<Rightarrow> Component list \<Rightarrow> error + Component list"
  and matchCompFilterChild :: "ical \<Rightarrow> CompFilter \<Rightarrow> Component \<Rightarrow> error + bool"
  and matchNested :: "ical \<Rightarrow> CompFilter list \<Rightarrow> PropFilter list \<Rightarrow> Component \<Rightarrow> error + bool"
  and matchCompFilters :: "ical \<Rightarrow> CompFilter list \<Rightarrow> Component \<Rightarrow> error + bool"
where
  "matchCompFilter L filter' (Component name props children) =
     (case matchChildren L filter' children [] of
        Inl err \<Rightarrow> Inl err
      | Inr matches \<Rightarrow>
          if length matches = 0 then Inr (cf_IsNotDefined filter') else Inr True)"
| "matchChildren L filter' [] matches = Inr matches"
| "matchChildren L filter' (child # rest) matches =
     (case matchCompFilterChild L filter' child of
        Inl err \<Rightarrow> Inl err
      | Inr match \<Rightarrow>
          if match then matchChildren L filter' rest (matches @ [child])
          else matchChildren L filter' rest matches)"
| "matchCompFilterChild L (CompFilter name isNotDefined start end' props comps) comp' =
     (if comp_Name comp' \<noteq> name then Inr False
      else if start \<noteq> zeroDate then
        (case matchCompTimeRange L start end' comp' of
           Inl err \<Rightarrow> Inl err
         | Inr match \<Rightarrow>
             if \<not> match then Inr False else matchNested L comps props comp')
      else matchNested L comps props comp')"
| "matchNested L comps props comp' =
     (case matchCompFilters L comps comp' of
        Inl err \<Rightarrow> Inl err
      | Inr match \<Rightarrow> if \<not> match then Inr False else matchPropFilters L props comp')"
| "matchCompFilters L [] comp' = Inr True"
| "matchCompFilters L (compFilter # rest) comp' =
     (case matchCompFilter L compFilter comp' of
        Inl err \<Rightarrow> Inl err
      | Inr match \<Rightarrow> if \<not> match then Inr False else matchCompFilters L rest comp')"

text \<open>
  \<^verbatim>\<open>Match\<close>: the object's data and its root component are pointers that may be nil.
\<close>

definition Match :: "ical \<Rightarrow> CompFilter \<Rightarrow> CalendarObject \<Rightarrow> error + bool" where
  "Match L query co =
     (case co_Data co of
        None \<Rightarrow> Inr False
      | Some data \<Rightarrow>
          (case cal_Component data of
             None \<Rightarrow> Inr False
           | Some comp' \<Rightarrow>
               if cf_Name query \<noteq> comp_Name comp' then Inr (cf_IsNotDefined query)
               else (case matchCompFilters L (cf_Comps query) comp' of
                       Inl err \<Rightarrow> Inl err
                     | Inr match \<Rightarrow>
                         if \<not> match then Inr False
                         else matchPropFilters L (cf_Props query) comp')))"

text \<open>
  \<^verbatim>\<open>Filter\<close> returns a slice and an error. A slice is \<open>None\<close> when it is nil and
  \<open>Some xs\<close> otherwise (\<^verbatim>\<open>make([]CalendarObject, 0)\<close> is \<open>Some []\<close>); ranging over a nil
  slice runs the loop body zero times. The error is \<open>None\<close> when it is nil. The loop is
  \<open>Filter_loop\<close>, which carries \<^verbatim>\<open>out\<close>.
\<close>

fun Filter_loop ::
  "ical \<Rightarrow> CalendarQuery \<Rightarrow> CalendarObject list \<Rightarrow> CalendarObject list
     \<Rightarrow> CalendarObject list option \<times> error option" where
  "Filter_loop L query [] out = (Some out, None)"
| "Filter_loop L query (co # rest) out =
     (case Match L (cq_CompFilter query) co of
        Inl err \<Rightarrow> (None, Some err)
      | Inr ok \<Rightarrow>
          if \<not> ok then Filter_loop L query rest out
          else Filter_loop L query rest (out @ [co]))"

definition Filter ::
  "ical \<Rightarrow> CalendarQuery option \<Rightarrow> CalendarObject list option
     \<Rightarrow> CalendarObject list option \<times> error option" where
  "Filter L query cos =
     (case query of
        None \<Rightarrow> (cos, None)
      | Some q \<Rightarrow> Filter_loop L q (case cos of None \<Rightarrow> [] | Some xs \<Rightarrow> xs) [])"

section \<open>Example data\<close>

text \<open>
  A library instance for the examples. It reads the date-times of a small table and
  rejects every other value, as the library rejects a malformed date-time. Instants are
  counted in hours: 2024-01-01T00:00:00Z is 738885 days, that is 17733240 hours, after
  the zero time. An event without \<^verbatim>\<open>DTSTART\<close> or \<^verbatim>\<open>DTEND\<close> reads as the zero
  time.
\<close>

definition table_DateTime :: "Prop \<Rightarrow> location \<Rightarrow> error + Time" where
  "table_DateTime p l =
     (case map_of [(''20240101T000000Z'', 0), (''20240101T010000Z'', 1),
                   (''20240101T020000Z'', 2), (''20240101T030000Z'', 3),
                   (''20240101T040000Z'', 4), (''20240101T050000Z'', 5)] (prop_Value p) of
        None \<Rightarrow> Inl (Error ''ical: cannot process'')
      | Some n \<Rightarrow> Inr \<lparr>instant = 17733240 + n, loc = Some ''UTC''\<rparr>)"

definition table_ical :: ical where
  "table_ical =
     \<lparr>DateTimeStart = (\<lambda>c l. case Props_Get (comp_Props c) ''DTSTART'' of
                                None \<Rightarrow> Inr zeroDate | Some p \<Rightarrow> table_DateTime p l),
      DateTimeEnd = (\<lambda>c l. case Props_Get (comp_Props c) ''DTEND'' of
                              None \<Rightarrow> Inr zeroDate | Some p \<Rightarrow> table_DateTime p l),
      DateTime = table_DateTime\<rparr>"

definition hour :: "int \<Rightarrow> Time" where
  "hour n = \<lparr>instant = 17733240 + n, loc = Some ''UTC''\<rparr>"

definition mkProp :: "string \<Rightarrow> string \<Rightarrow> Prop" where
  "mkProp name value = \<lparr>prop_Name = name, prop_Params = (\<lambda>k. []), prop_Value = value\<rparr>"

definition noProps :: "string \<Rightarrow> Prop list" where
  "noProps = (\<lambda>k. [])"

definition alarm :: Component where
  "alarm = Component ''VALARM'' (noProps(''ACTION'' := [mkProp ''ACTION'' ''DISPLAY''])) []"

definition plainEvent :: Component where
  "plainEvent = Component ''VEVENT'' (noProps(''SUMMARY'' := [mkProp ''SUMMARY'' ''Lunch''])) []"

definition alarmEvent :: Component where
  "alarmEvent =
     Component ''VEVENT'' (noProps(''SUMMARY'' := [mkProp ''SUMMARY'' ''Lunch''])) [alarm]"

definition goodEvent :: Component where
  "goodEvent =
     Component ''VEVENT''
       (noProps(''DTSTART'' := [mkProp ''DTSTART'' ''20240101T010000Z''],
                ''DTEND'' := [mkProp ''DTEND'' ''20240101T020000Z''])) []"

definition badEvent :: Component where
  "badEvent =
     Component ''VEVENT''
       (noProps(''DTSTART'' := [mkProp ''DTSTART'' ''not-a-date''],
                ''DTEND'' := [mkProp ''DTEND'' ''20240101T020000Z''])) []"

definition noTime :: "string \<Rightarrow> bool \<Rightarrow> PropFilter list \<Rightarrow> CompFilter list \<Rightarrow> CompFilter" where
  "noTime name isNotDefined props comps =
     CompFilter name isNotDefined zeroDate zeroDate props comps"

definition summaryNotDefined :: PropFilter where
  "summaryNotDefined =
     \<lparr>pf_Name = ''SUMMARY'', pf_IsNotDefined = True, pf_Start = zeroDate, pf_End = zeroDate,
      pf_TextMatch = None, pf_ParamFilter = []\<rparr>"

definition alarmNotDefined :: CompFilter where
  "alarmNotDefined = noTime ''VALARM'' True [] []"

definition eventInRange :: CompFilter where
  "eventInRange = CompFilter ''VEVENT'' False (hour 0) (hour 3) [] []"

definition mkObject :: "Component \<Rightarrow> CalendarObject" where
  "mkObject c = \<lparr>co_Path = ''/cal/1.ics'', co_Data = Some \<lparr>cal_Component = Some c\<rparr>\<rparr>"

definition calendarOf :: "Component list \<Rightarrow> Component" where
  "calendarOf children = Component ''VCALENDAR'' noProps children"

definition eventNoAlarm :: CompFilter where
  "eventNoAlarm = noTime ''VEVENT'' False [] [alarmNotDefined]"

definition rangeQuery :: CalendarQuery where
  "rangeQuery = \<lparr>cq_CompFilter = noTime ''VCALENDAR'' False [] [eventInRange]\<rparr>"

definition languagePresent :: ParamFilter where
  "languagePresent =
     \<lparr>paf_Name = ''LANGUAGE'', paf_IsNotDefined = False, paf_TextMatch = None\<rparr>"

definition summaryExists :: PropFilter where
  "summaryExists =
     \<lparr>pf_Name = ''SUMMARY'', pf_IsNotDefined = False, pf_Start = zeroDate, pf_End = zeroDate,
      pf_TextMatch = None, pf_ParamFilter = [languagePresent]\<rparr>"

definition summaryLunch :: PropFilter where
  "summaryLunch =
     \<lparr>pf_Name = ''SUMMARY'', pf_IsNotDefined = False, pf_Start = zeroDate, pf_End = zeroDate,
      pf_TextMatch = Some \<lparr>tm_Text = ''Lunch'', tm_NegateCondition = False\<rparr>,
      pf_ParamFilter = [languagePresent]\<rparr>"

definition dtstartInRange :: PropFilter where
  "dtstartInRange =
     \<lparr>pf_Name = ''DTSTART'', pf_IsNotDefined = False, pf_Start = hour 0, pf_End = hour 3,
      pf_TextMatch = None, pf_ParamFilter = [languagePresent]\<rparr>"

definition noData :: CalendarObject where
  "noData = \<lparr>co_Path = ''/cal/2.ics'', co_Data = None\<rparr>"

definition noRoot :: CalendarObject where
  "noRoot = \<lparr>co_Path = ''/cal/3.ics'', co_Data = Some \<lparr>cal_Component = None\<rparr>\<rparr>"

lemmas example_defs =
  table_DateTime_def table_ical_def hour_def mkProp_def noProps_def alarm_def
  plainEvent_def alarmEvent_def goodEvent_def badEvent_def noTime_def
  summaryNotDefined_def alarmNotDefined_def eventInRange_def mkObject_def calendarOf_def
  eventNoAlarm_def rangeQuery_def languagePresent_def summaryExists_def summaryLunch_def
  dtstartInRange_def noData_def noRoot_def

lemmas library_defs =
  zeroDate_def Location_def After_def Before_def ToUpperChar_def ToUpper_def
  Params_Get_def Props_Get_def CompEvent_def

section \<open>Loops\<close>

lemma matchParamFilters_all:
  "matchParamFilters ps field = list_all (\<lambda>p. matchParamFilter p field) ps"
  by (induction ps) simp_all

text \<open>
  As long as no child fails, the loop of \<^verbatim>\<open>matchCompFilter\<close> appends the matching
  children to \<^verbatim>\<open>matches\<close>, in order.
\<close>

lemma matchChildren_no_error:
  "list_all (\<lambda>ch. isl (matchCompFilterChild L f ch) = False) cs \<Longrightarrow>
   matchChildren L f cs matches =
     Inr (matches @ filter (\<lambda>ch. matchCompFilterChild L f ch = Inr True) cs)"
proof (induction cs arbitrary: matches)
  case Nil
  then show ?case by simp
next
  case (Cons ch cs)
  then obtain b where b: "matchCompFilterChild L f ch = Inr b"
    by (cases "matchCompFilterChild L f ch") auto
  from Cons.prems have rest: "list_all (\<lambda>ch. isl (matchCompFilterChild L f ch) = False) cs"
    by simp
  show ?case
    using b Cons.IH [OF rest] by (cases b) simp_all
qed

text \<open>The first child that fails ends the loop with its error.\<close>

lemma matchChildren_first_error:
  "list_all (\<lambda>ch. isl (matchCompFilterChild L f ch) = False) pre \<Longrightarrow>
   matchCompFilterChild L f bad = Inl e \<Longrightarrow>
   matchChildren L f (pre @ bad # post) matches = Inl e"
proof (induction pre arbitrary: matches)
  case Nil
  then show ?case by simp
next
  case (Cons p pre)
  then obtain b where b: "matchCompFilterChild L f p = Inr b"
    by (cases "matchCompFilterChild L f p") auto
  from Cons.prems have rest: "list_all (\<lambda>ch. isl (matchCompFilterChild L f ch) = False) pre"
    by simp
  show ?case
    using b Cons.IH [OF rest Cons.prems(2)] by (cases b) simp_all
qed

lemma Filter_loop_first_error:
  "list_all (\<lambda>c. isl (Match L (cq_CompFilter q) c) = False) pre \<Longrightarrow>
   Match L (cq_CompFilter q) co = Inl e \<Longrightarrow>
   Filter_loop L q (pre @ co # post) out = (None, Some e)"
proof (induction pre arbitrary: out)
  case Nil
  then show ?case by simp
next
  case (Cons p pre)
  then obtain b where b: "Match L (cq_CompFilter q) p = Inr b"
    by (cases "Match L (cq_CompFilter q) p") auto
  from Cons.prems have rest: "list_all (\<lambda>c. isl (Match L (cq_CompFilter q) c) = False) pre"
    by simp
  show ?case
    using b Cons.IH [OF rest Cons.prems(2)] by (cases b) simp_all
qed

section \<open>Evaluations on the example data\<close>

lemma goodEvent_in_range:
  "matchCompFilterChild table_ical eventInRange goodEvent = Inr True"
  by (simp add: matchCompTimeRange_def example_defs library_defs)

lemma badEvent_fails:
  "matchCompFilterChild table_ical eventInRange badEvent = Inl (Error ''ical: cannot process'')"
  by (simp add: matchCompTimeRange_def example_defs library_defs)

lemma alarm_not_event:
  "matchCompFilterChild table_ical eventInRange alarm = Inr False"
  by (simp add: example_defs)

lemma Match_goodEvent:
  "Match table_ical (cq_CompFilter rangeQuery) (mkObject (calendarOf [goodEvent])) = Inr True"
  by (simp add: Match_def matchCompTimeRange_def example_defs library_defs)

lemma Match_badEvent:
  "Match table_ical (cq_CompFilter rangeQuery) (mkObject (calendarOf [badEvent])) =
     Inl (Error ''ical: cannot process'')"
  by (simp add: Match_def matchCompTimeRange_def example_defs library_defs)

section \<open>Property filters\<close>

text \<open>
  C1. A property filter with \<^verbatim>\<open>IsNotDefined\<close> set, no time range and no text match is
  claimed to return true when the component has no property of that name and false when
  it has one. On a \<^verbatim>\<open>VALARM\<close> without \<^verbatim>\<open>SUMMARY\<close> the filter
  \<^verbatim>\<open>{Name: "SUMMARY", IsNotDefined: true}\<close> returns true, as claimed; on a
  \<^verbatim>\<open>VEVENT\<close> that has a \<^verbatim>\<open>SUMMARY\<close> it returns true as well: the property is found,
  neither branch is taken and the function ends in its final \<^verbatim>\<open>return true, nil\<close>,
  without reading \<^verbatim>\<open>IsNotDefined\<close>.
\<close>

theorem matchPropFilter_IsNotDefined_present:
  "Props_Get (comp_Props alarm) (pf_Name summaryNotDefined) = None \<and>
   matchPropFilter table_ical summaryNotDefined alarm = Inr True \<and>
   Props_Get (comp_Props plainEvent) (pf_Name summaryNotDefined) =
     Some (mkProp ''SUMMARY'' ''Lunch'') \<and>
   matchPropFilter table_ical summaryNotDefined plainEvent = Inr True"
  by (simp add: matchPropFilter_def example_defs library_defs)

text \<open>
  C5. When the component has a property named as the filter says, a property filter with
  neither a time range nor a text match returns true, whatever its parameter filters are:
  they are not evaluated. In the time range branch and in the text match branch, once the
  time range or the text matches, the result is true exactly when every parameter filter
  matches the property.
\<close>

theorem matchPropFilter_existence:
  assumes "Props_Get (comp_Props c) (pf_Name f) = Some field"
  shows "(pf_Start f = zeroDate \<and> pf_TextMatch f = None \<longrightarrow>
            matchPropFilter L f c = Inr True \<and>
            matchPropFilter L (f\<lparr>pf_ParamFilter := ps\<rparr>) c = Inr True) \<and>
         (pf_Start f \<noteq> zeroDate \<and>
            matchPropTimeRange L (pf_Start f) (pf_End f) field = Inr True \<longrightarrow>
            matchPropFilter L f c =
              Inr (\<forall>p \<in> set (pf_ParamFilter f). matchParamFilter p field)) \<and>
         (pf_Start f = zeroDate \<and> pf_TextMatch f = Some txt \<and>
            matchTextMatch txt (prop_Value field) \<longrightarrow>
            matchPropFilter L f c =
              Inr (\<forall>p \<in> set (pf_ParamFilter f). matchParamFilter p field))"
  using assms by (simp add: matchPropFilter_def matchParamFilters_all list_all_iff)

theorem matchPropFilter_existence_witness:
  "Props_Get (comp_Props plainEvent) (pf_Name summaryExists) =
     Some (mkProp ''SUMMARY'' ''Lunch'') \<and>
   pf_Start summaryExists = zeroDate \<and> pf_TextMatch summaryExists = None \<and>
   \<not> matchParamFilter languagePresent (mkProp ''SUMMARY'' ''Lunch'') \<and>
   matchPropFilter table_ical summaryExists plainEvent = Inr True \<and>
   matchPropFilter table_ical (summaryExists\<lparr>pf_ParamFilter := []\<rparr>) plainEvent = Inr True \<and>
   Props_Get (comp_Props goodEvent) (pf_Name dtstartInRange) =
     Some (mkProp ''DTSTART'' ''20240101T010000Z'') \<and>
   pf_Start dtstartInRange \<noteq> zeroDate \<and>
   matchPropTimeRange table_ical (pf_Start dtstartInRange) (pf_End dtstartInRange)
     (mkProp ''DTSTART'' ''20240101T010000Z'') = Inr True \<and>
   matchPropFilter table_ical dtstartInRange goodEvent = Inr False \<and>
   pf_TextMatch summaryLunch = Some \<lparr>tm_Text = ''Lunch'', tm_NegateCondition = False\<rparr> \<and>
   matchTextMatch \<lparr>tm_Text = ''Lunch'', tm_NegateCondition = False\<rparr>
     (prop_Value (mkProp ''SUMMARY'' ''Lunch'')) \<and>
   matchPropFilter table_ical summaryLunch plainEvent = Inr False"
proof -
  let ?summary = "mkProp ''SUMMARY'' ''Lunch''"
  let ?dtstart = "mkProp ''DTSTART'' ''20240101T010000Z''"
  let ?txt = "\<lparr>tm_Text = ''Lunch'', tm_NegateCondition = False\<rparr>"
  have s: "Props_Get (comp_Props plainEvent) (pf_Name summaryExists) = Some ?summary"
    by (simp add: example_defs library_defs)
  have s': "Props_Get (comp_Props plainEvent) (pf_Name summaryLunch) = Some ?summary"
    by (simp add: example_defs library_defs)
  have d: "Props_Get (comp_Props goodEvent) (pf_Name dtstartInRange) = Some ?dtstart"
    by (simp add: example_defs library_defs)
  have e: "pf_Start summaryExists = zeroDate \<and> pf_TextMatch summaryExists = None"
    by (simp add: example_defs)
  have r: "pf_Start dtstartInRange \<noteq> zeroDate \<and>
      matchPropTimeRange table_ical (pf_Start dtstartInRange) (pf_End dtstartInRange) ?dtstart
        = Inr True"
    by (simp add: matchPropTimeRange_def example_defs library_defs)
  have t: "pf_Start summaryLunch = zeroDate \<and> pf_TextMatch summaryLunch = Some ?txt \<and>
      matchTextMatch ?txt (prop_Value ?summary)"
    by (simp add: matchTextMatch_def example_defs)
  have p: "\<not> matchParamFilter languagePresent ?summary"
    "\<not> matchParamFilter languagePresent ?dtstart"
    by (simp_all add: matchParamFilter_def example_defs library_defs)
  have ps: "pf_ParamFilter dtstartInRange = [languagePresent]"
    "pf_ParamFilter summaryLunch = [languagePresent]"
    by (simp_all add: example_defs)
  from matchPropFilter_existence [OF s, of table_ical "[]" ?txt] e
  have 1: "matchPropFilter table_ical summaryExists plainEvent = Inr True \<and>
      matchPropFilter table_ical (summaryExists\<lparr>pf_ParamFilter := []\<rparr>) plainEvent = Inr True"
    by blast
  from matchPropFilter_existence [OF d, of table_ical "[]" ?txt] r
  have "matchPropFilter table_ical dtstartInRange goodEvent =
      Inr (\<forall>p \<in> set (pf_ParamFilter dtstartInRange). matchParamFilter p ?dtstart)"
    by blast
  with p ps have 2: "matchPropFilter table_ical dtstartInRange goodEvent = Inr False"
    by simp
  from matchPropFilter_existence [OF s', of table_ical "[]" ?txt] t
  have "matchPropFilter table_ical summaryLunch plainEvent =
      Inr (\<forall>p \<in> set (pf_ParamFilter summaryLunch). matchParamFilter p ?summary)"
    by blast
  with p ps have 3: "matchPropFilter table_ical summaryLunch plainEvent = Inr False"
    by simp
  from s d e r t p 1 2 3 show ?thesis by blast
qed

section \<open>Component filters\<close>

text \<open>
  C2. A component filter with the nested filter \<^verbatim>\<open>{Name: "VALARM", IsNotDefined: true}\<close>
  is claimed to match a \<^verbatim>\<open>VEVENT\<close> without \<^verbatim>\<open>VALARM\<close> children and not to match a
  \<^verbatim>\<open>VEVENT\<close> with one. The filter \<^verbatim>\<open>{Name: "VEVENT", Comps: [{Name: "VALARM",
  IsNotDefined: true}]}\<close> matches the event without alarm, as claimed, and matches the event
  with an alarm too: the \<^verbatim>\<open>VALARM\<close> child matches the nested filter by its name, so
  \<^verbatim>\<open>matches\<close> is not empty and \<^verbatim>\<open>matchCompFilter\<close> returns true without reading
  \<^verbatim>\<open>IsNotDefined\<close>.
\<close>

theorem matchCompFilter_IsNotDefined_present:
  "comp_Children plainEvent = [] \<and>
   matchCompFilter table_ical alarmNotDefined plainEvent = Inr True \<and>
   matchCompFilterChild table_ical eventNoAlarm plainEvent = Inr True \<and>
   comp_Children alarmEvent = [alarm] \<and> comp_Name alarm = ''VALARM'' \<and>
   matchCompFilter table_ical alarmNotDefined alarmEvent = Inr True \<and>
   matchCompFilterChild table_ical eventNoAlarm alarmEvent = Inr True"
  by (simp add: example_defs)

text \<open>
  C3 as stated: \<^verbatim>\<open>matchCompFilter\<close> returns true if at least one direct child matches
  the filter. It does not when a later child fails: the first child of the calendar below
  matches the filter, the second one has a start that cannot be read, and the result is
  that error.
\<close>

theorem matchCompFilter_exists_counterexample:
  "matchCompFilterChild table_ical eventInRange goodEvent = Inr True \<and>
   matchCompFilter table_ical eventInRange (calendarOf [goodEvent, badEvent]) =
     Inl (Error ''ical: cannot process'') \<and>
   matchCompFilter table_ical eventInRange (calendarOf [goodEvent, badEvent]) \<noteq> Inr True"
  by (simp add: matchCompTimeRange_def example_defs library_defs)

text \<open>
  C3, amended. When the filter evaluates every direct child without error,
  \<^verbatim>\<open>matchCompFilter\<close> returns true if at least one child matches and
  \<^verbatim>\<open>filter.IsNotDefined\<close> if none does. When some child fails, it returns the error of the
  first child that fails, whatever the children before and after it are.
\<close>

theorem matchCompFilter_exists:
  "((\<forall>ch \<in> set cs. \<exists>b. matchCompFilterChild L f ch = Inr b) \<longrightarrow>
      matchCompFilter L f (Component n ps cs) =
        Inr (if \<exists>ch \<in> set cs. matchCompFilterChild L f ch = Inr True then True
             else cf_IsNotDefined f)) \<and>
   ((\<forall>ch \<in> set pre. \<exists>b. matchCompFilterChild L f ch = Inr b) \<and>
      matchCompFilterChild L f bad = Inl e \<longrightarrow>
      matchCompFilter L f (Component n ps (pre @ bad # post)) = Inl e)"
proof (intro conjI impI)
  assume "\<forall>ch \<in> set cs. \<exists>b. matchCompFilterChild L f ch = Inr b"
  then have "list_all (\<lambda>ch. isl (matchCompFilterChild L f ch) = False) cs"
    by (auto simp: list_all_iff)
  then have "matchChildren L f cs [] =
      Inr (filter (\<lambda>ch. matchCompFilterChild L f ch = Inr True) cs)"
    using matchChildren_no_error [of L f cs "[]"] by simp
  then show "matchCompFilter L f (Component n ps cs) =
        Inr (if \<exists>ch \<in> set cs. matchCompFilterChild L f ch = Inr True then True
             else cf_IsNotDefined f)"
    by (auto simp: filter_empty_conv)
next
  assume a: "(\<forall>ch \<in> set pre. \<exists>b. matchCompFilterChild L f ch = Inr b) \<and>
      matchCompFilterChild L f bad = Inl e"
  then have "list_all (\<lambda>ch. isl (matchCompFilterChild L f ch) = False) pre"
    by (auto simp: list_all_iff)
  with a have "matchChildren L f (pre @ bad # post) [] = Inl e"
    using matchChildren_first_error by blast
  then show "matchCompFilter L f (Component n ps (pre @ bad # post)) = Inl e"
    by simp
qed

theorem matchCompFilter_exists_witness:
  "matchCompFilterChild table_ical eventInRange alarm = Inr False \<and>
   matchCompFilterChild table_ical eventInRange goodEvent = Inr True \<and>
   matchCompFilter table_ical eventInRange (Component ''VCALENDAR'' noProps [alarm, goodEvent]) =
     Inr True \<and>
   matchCompFilter table_ical eventInRange (Component ''VCALENDAR'' noProps [alarm]) =
     Inr (cf_IsNotDefined eventInRange) \<and>
   matchCompFilterChild table_ical eventInRange badEvent =
     Inl (Error ''ical: cannot process'') \<and>
   matchCompFilter table_ical eventInRange
     (Component ''VCALENDAR'' noProps ([alarm, goodEvent] @ badEvent # [goodEvent])) =
     Inl (Error ''ical: cannot process'')"
proof -
  have ok: "\<forall>ch \<in> set [alarm, goodEvent].
      \<exists>b. matchCompFilterChild table_ical eventInRange ch = Inr b"
    by (auto simp: alarm_not_event goodEvent_in_range)
  have ok1: "\<forall>ch \<in> set [alarm]. \<exists>b. matchCompFilterChild table_ical eventInRange ch = Inr b"
    by (auto simp: alarm_not_event)
  note inst = matchCompFilter_exists
    [where L = table_ical and f = eventInRange and n = "''VCALENDAR''" and ps = noProps]
  from inst [where cs = "[alarm, goodEvent]"] ok
  have 1: "matchCompFilter table_ical eventInRange
      (Component ''VCALENDAR'' noProps [alarm, goodEvent]) = Inr True"
    by (simp add: alarm_not_event goodEvent_in_range)
  from inst [where cs = "[alarm]"] ok1
  have 2: "matchCompFilter table_ical eventInRange (Component ''VCALENDAR'' noProps [alarm]) =
      Inr (cf_IsNotDefined eventInRange)"
    by (simp add: alarm_not_event)
  from inst [where pre = "[alarm, goodEvent]" and bad = badEvent
      and e = "Error ''ical: cannot process''" and post = "[goodEvent]"] ok badEvent_fails
  have 3: "matchCompFilter table_ical eventInRange
      (Component ''VCALENDAR'' noProps ([alarm, goodEvent] @ badEvent # [goodEvent])) =
      Inl (Error ''ical: cannot process'')"
    by blast
  from alarm_not_event goodEvent_in_range 1 2 3 badEvent_fails show ?thesis by blast
qed

section \<open>Time ranges of components\<close>

text \<open>
  C4. \<^verbatim>\<open>matchCompTimeRange\<close> returns false and no error for a component that is not a
  \<^verbatim>\<open>VEVENT\<close>. For a \<^verbatim>\<open>VEVENT\<close> whose start and end are read without error, it returns
  true exactly when the event starts strictly inside the range, or ends strictly inside
  the range, or starts before the range and ends after it. All comparisons are strict, so
  an instant equal to a boundary satisfies none of them.
\<close>

theorem matchCompTimeRange_overlap:
  "(comp_Name c \<noteq> ''VEVENT'' \<longrightarrow> matchCompTimeRange L s e c = Inr False) \<and>
   (comp_Name c = ''VEVENT'' \<and> DateTimeStart L c (Location s) = Inr es \<and>
    DateTimeEnd L c (Location e) = Inr ee \<longrightarrow>
      matchCompTimeRange L s e c =
        Inr (instant s < instant es \<and> instant es < instant e \<or>
             instant s < instant ee \<and> instant ee < instant e \<or>
             instant es < instant s \<and> instant e < instant ee))"
  by (simp add: matchCompTimeRange_def CompEvent_def After_def Before_def)

theorem matchCompTimeRange_overlap_witness:
  "comp_Name alarm \<noteq> ''VEVENT'' \<and>
   matchCompTimeRange table_ical (hour 0) (hour 3) alarm = Inr False \<and>
   comp_Name goodEvent = ''VEVENT'' \<and>
   DateTimeStart table_ical goodEvent ''UTC'' = Inr (hour 1) \<and>
   DateTimeEnd table_ical goodEvent ''UTC'' = Inr (hour 2) \<and>
   matchCompTimeRange table_ical (hour 0) (hour 3) goodEvent = Inr True \<and>
   matchCompTimeRange table_ical (hour 1) (hour 2) goodEvent = Inr False \<and>
   matchCompTimeRange table_ical (hour 1) (hour 3) goodEvent = Inr True"
proof -
  have a: "comp_Name alarm \<noteq> ''VEVENT''"
    by (simp add: example_defs)
  have g: "comp_Name goodEvent = ''VEVENT''"
    by (simp add: example_defs)
  have l: "Location (hour n) = ''UTC''" for n
    by (simp add: hour_def Location_def)
  have st: "DateTimeStart table_ical goodEvent ''UTC'' = Inr (hour 1)"
    by (simp add: example_defs library_defs)
  have en: "DateTimeEnd table_ical goodEvent ''UTC'' = Inr (hour 2)"
    by (simp add: example_defs library_defs)
  have i: "instant (hour n) = 17733240 + n" for n
    by (simp add: hour_def)
  from matchCompTimeRange_overlap [of alarm table_ical "hour 0" "hour 3"] a
  have 1: "matchCompTimeRange table_ical (hour 0) (hour 3) alarm = Inr False"
    by blast
  from matchCompTimeRange_overlap [of goodEvent table_ical "hour 0" "hour 3" "hour 1" "hour 2"]
    g st en
  have 2: "matchCompTimeRange table_ical (hour 0) (hour 3) goodEvent = Inr True"
    by (simp add: l i)
  from matchCompTimeRange_overlap [of goodEvent table_ical "hour 1" "hour 2" "hour 1" "hour 2"]
    g st en
  have 3: "matchCompTimeRange table_ical (hour 1) (hour 2) goodEvent = Inr False"
    by (simp add: l i)
  from matchCompTimeRange_overlap [of goodEvent table_ical "hour 1" "hour 3" "hour 1" "hour 2"]
    g st en
  have 4: "matchCompTimeRange table_ical (hour 1) (hour 3) goodEvent = Inr True"
    by (simp add: l i)
  from a g st en 1 2 3 4 show ?thesis by blast
qed

section \<open>Matching one calendar object\<close>

text \<open>
  C7. Whatever the query is, \<^verbatim>\<open>Match\<close> returns false and no error for a calendar
  object without parsed data: its data is nil, or the root component of its data is nil.
\<close>

theorem Match_no_data:
  "co_Data co = None \<or> (\<exists>d. co_Data co = Some d \<and> cal_Component d = None) \<Longrightarrow>
   Match L query co = Inr False"
  by (auto simp: Match_def)

theorem Match_no_data_witness:
  "co_Data noData = None \<and>
   Match table_ical alarmNotDefined noData = Inr False \<and>
   co_Data noRoot = Some \<lparr>cal_Component = None\<rparr> \<and>
   Match table_ical alarmNotDefined noRoot = Inr False"
proof -
  have d: "co_Data noData = None"
    by (simp add: noData_def)
  have r: "co_Data noRoot = Some \<lparr>cal_Component = None\<rparr>"
    by (simp add: noRoot_def)
  from d have 1: "Match table_ical alarmNotDefined noData = Inr False"
    by (rule Match_no_data [OF disjI1])
  from r have "\<exists>d. co_Data noRoot = Some d \<and> cal_Component d = None"
    by simp
  then have 2: "Match table_ical alarmNotDefined noRoot = Inr False"
    by (rule Match_no_data [OF disjI2])
  from d r 1 2 show ?thesis by blast
qed

text \<open>
  C8. For a calendar object with parsed data whose root component is not named as the
  query says, \<^verbatim>\<open>Match\<close> returns the query's \<^verbatim>\<open>IsNotDefined\<close> and no error.
\<close>

theorem Match_other_name:
  "co_Data co = Some d \<Longrightarrow> cal_Component d = Some root \<Longrightarrow>
   comp_Name root \<noteq> cf_Name query \<Longrightarrow>
   Match L query co = Inr (cf_IsNotDefined query)"
  by (auto simp: Match_def)

theorem Match_other_name_witness:
  "co_Data (mkObject (calendarOf [goodEvent])) =
     Some \<lparr>cal_Component = Some (calendarOf [goodEvent])\<rparr> \<and>
   comp_Name (calendarOf [goodEvent]) \<noteq> cf_Name alarmNotDefined \<and>
   Match table_ical alarmNotDefined (mkObject (calendarOf [goodEvent])) = Inr True \<and>
   comp_Name (calendarOf [goodEvent]) \<noteq> cf_Name eventInRange \<and>
   Match table_ical eventInRange (mkObject (calendarOf [goodEvent])) = Inr False"
proof -
  let ?root = "calendarOf [goodEvent]"
  have d: "co_Data (mkObject ?root) = Some \<lparr>cal_Component = Some ?root\<rparr>"
    by (simp add: mkObject_def)
  have c: "cal_Component \<lparr>cal_Component = Some ?root\<rparr> = Some ?root"
    by simp
  have n: "comp_Name ?root \<noteq> cf_Name alarmNotDefined"
    "comp_Name ?root \<noteq> cf_Name eventInRange"
    by (simp_all add: example_defs)
  have i: "cf_IsNotDefined alarmNotDefined" "\<not> cf_IsNotDefined eventInRange"
    by (simp_all add: example_defs)
  from Match_other_name [OF d c n(1), of table_ical] i(1)
  have 1: "Match table_ical alarmNotDefined (mkObject ?root) = Inr True"
    by simp
  from Match_other_name [OF d c n(2), of table_ical] i(2)
  have 2: "Match table_ical eventInRange (mkObject ?root) = Inr False"
    by simp
  from d n 1 2 show ?thesis by blast
qed

text \<open>
  C10. The result of \<^verbatim>\<open>Match\<close> does not depend on the \<^verbatim>\<open>Start\<close> and \<^verbatim>\<open>End\<close> of the
  root query: two queries that differ in these two fields only give the same result, value
  and error, on every calendar object.
\<close>

theorem Match_ignores_root_time_range:
  "Match L (CompFilter name isNotDefined start end' props comps) co =
   Match L (CompFilter name isNotDefined start2 end2 props comps) co"
  by (simp add: Match_def split: option.splits sum.splits)

section \<open>Filtering a list of calendar objects\<close>

text \<open>
  C6. With a query that is not nil, when \<^verbatim>\<open>Match\<close> fails on an object and on none
  before it, \<^verbatim>\<open>Filter\<close> returns the nil slice and that error, whatever the objects
  before it (matching or not) and after it are.
\<close>

theorem Filter_fail_fast:
  assumes "\<forall>c \<in> set pre. \<exists>b. Match L (cq_CompFilter q) c = Inr b"
    and "Match L (cq_CompFilter q) co = Inl e"
  shows "Filter L (Some q) (Some (pre @ co # post)) = (None, Some e)"
proof -
  from assms(1) have "list_all (\<lambda>c. isl (Match L (cq_CompFilter q) c) = False) pre"
    by (auto simp: list_all_iff)
  then show ?thesis
    using assms(2) by (simp add: Filter_def Filter_loop_first_error)
qed

theorem Filter_fail_fast_witness:
  "Match table_ical (cq_CompFilter rangeQuery) (mkObject (calendarOf [goodEvent])) = Inr True \<and>
   Match table_ical (cq_CompFilter rangeQuery) (mkObject (calendarOf [badEvent])) =
     Inl (Error ''ical: cannot process'') \<and>
   Filter table_ical (Some rangeQuery)
     (Some ([mkObject (calendarOf [goodEvent])] @ mkObject (calendarOf [badEvent])
              # [mkObject (calendarOf [goodEvent])])) =
     (None, Some (Error ''ical: cannot process''))"
proof -
  have ok: "\<forall>c \<in> set [mkObject (calendarOf [goodEvent])].
      \<exists>b. Match table_ical (cq_CompFilter rangeQuery) c = Inr b"
    by (auto simp: Match_goodEvent)
  from Filter_fail_fast [OF ok Match_badEvent] Match_goodEvent Match_badEvent
  show ?thesis by blast
qed

text \<open>
  C9. With a nil query, \<^verbatim>\<open>Filter\<close> returns the slice it was given, nil, empty or not,
  and a nil error. The result is the argument itself, not a copy.
\<close>

theorem Filter_nil_query:
  "Filter L None objs = (objs, None)"
  by (simp add: Filter_def)

end
